theory Spec2Isabelle
  imports Main "HOL-Library.Word"
begin

section \<open>JavaScript strings\<close>

text \<open>
  A JavaScript string is a sequence of UTF-16 code units; \<open>length\<close>, \<open>substring\<close>,
  \<open>trim\<close> and a regular expression without the \<open>u\<close> flag all count and match code
  units. The bullet U+2022 of the formatter is one code unit, so a string is modelled as
  a list of 16-bit words. \<open>js\<close> embeds an ASCII literal.
\<close>

type_synonym jschar = "16 word"
type_synonym jsstring = "jschar list"

definition js :: "string \<Rightarrow> jsstring" where
  "js s = map (\<lambda>c. of_nat (of_char c)) s"

definition LF :: jschar where "LF = 0x0A"
definition SP :: jschar where "SP = 0x20"
definition HASH :: jschar where "HASH = 0x23"
definition STAR :: jschar where "STAR = 0x2A"
definition DASH :: jschar where "DASH = 0x2D"
definition BULLET :: jschar where "BULLET = 0x2022"
definition DQUOTE :: jschar where "DQUOTE = 0x22"

text \<open>ECMAScript \<open>LineTerminator\<close>: LF, CR, LS, PS. The anchor \<open>^\<close> of a regular
  expression with the \<open>m\<close> flag matches at the start of the input and after one of them.\<close>

definition isLineTerminator :: "jschar \<Rightarrow> bool" where
  "isLineTerminator c \<longleftrightarrow> c = 0x0A \<or> c = 0x0D \<or> c = 0x2028 \<or> c = 0x2029"

text \<open>ECMAScript \<open>WhiteSpace\<close>: TAB, VT, FF, ZWNBSP and the Unicode space separators.\<close>

definition isWhiteSpace :: "jschar \<Rightarrow> bool" where
  "isWhiteSpace c \<longleftrightarrow>
     c = 0x09 \<or> c = 0x0B \<or> c = 0x0C \<or> c = 0x20 \<or> c = 0xA0 \<or> c = 0x1680 \<or>
     (0x2000 \<le> c \<and> c \<le> 0x200A) \<or> c = 0x202F \<or> c = 0x205F \<or> c = 0x3000 \<or>
     c = 0xFEFF"

text \<open>The class \<open>\s\<close>, which is also what \<open>String.prototype.trim\<close> strips.\<close>

definition is_space :: "jschar \<Rightarrow> bool" where
  "is_space c \<longleftrightarrow> isWhiteSpace c \<or> isLineTerminator c"

definition trim :: "jsstring \<Rightarrow> jsstring" where
  "trim s = rev (dropWhile is_space (rev (dropWhile is_space s)))"

text \<open>\<open>haystack.includes(needle)\<close>.\<close>

fun starts_with :: "jsstring \<Rightarrow> jsstring \<Rightarrow> bool" where
  "starts_with s [] = True"
| "starts_with [] (n # ns) = False"
| "starts_with (c # cs) (n # ns) = (c = n \<and> starts_with cs ns)"

fun str_includes :: "jsstring \<Rightarrow> jsstring \<Rightarrow> bool" where
  "str_includes [] needle = (needle = [])"
| "str_includes (c # cs) needle = (starts_with (c # cs) needle \<or> str_includes cs needle)"

section \<open>The formatting pass \<open>formatSummaryText\<close>\<close>

text \<open>
  \<open>text.replace(re, replacement)\<close> with a global regular expression scans the input from
  the left. At each position the expression is tried; on a match the replacement is
  emitted and the scan goes on behind the match, otherwise the code unit is copied and
  the scan moves one position on. A matcher gets the code unit before the position
  (\<open>None\<close> at the start of the input: this is all \<open>^\<close> looks at) and the rest of the
  input (which the match and its lookahead read), and answers with the replacement and
  the length of the match. After an empty match JavaScript copies one code unit and
  advances; none of the six expressions below can match the empty string, so that
  nothing is tried at the end of the input.
\<close>

type_synonym matcher = "jschar option \<Rightarrow> jsstring \<Rightarrow> (jsstring \<times> nat) option"

function replace_all :: "matcher \<Rightarrow> jschar option \<Rightarrow> jsstring \<Rightarrow> jsstring" where
  "replace_all m prev [] = []"
| "replace_all m prev (c # cs) =
     (case m prev (c # cs) of
        None \<Rightarrow> c # replace_all m (Some c) cs
      | Some (r, 0) \<Rightarrow> r @ c # replace_all m (Some c) cs
      | Some (r, Suc n) \<Rightarrow>
          r @ replace_all m (Some (last (take (Suc n) (c # cs)))) (drop n cs))"
  by pat_completeness auto
termination
  by (relation "measure (\<lambda>(m, prev, s). length s)") auto

definition line_start :: "jschar option \<Rightarrow> bool" where
  "line_start prev = (case prev of None \<Rightarrow> True | Some p \<Rightarrow> isLineTerminator p)"

definition run :: "(jschar \<Rightarrow> bool) \<Rightarrow> jsstring \<Rightarrow> nat" where
  "run P s = length (takeWhile P s)"

text \<open>\<open>/\n{3,}/g\<close>, replaced by \<open>'\n\n'\<close>: the greedy quantifier takes the whole run of
  line feeds.\<close>

definition re_newlines :: matcher where
  "re_newlines prev s =
     (let k = run (\<lambda>c. c = LF) s in if 3 \<le> k then Some ([LF, LF], k) else None)"

text \<open>\<open>/^([-*\<bullet>])\s*/gm\<close>, replaced by the bullet U+2022 and a space.\<close>

definition is_bullet :: "jschar \<Rightarrow> bool" where
  "is_bullet c \<longleftrightarrow> c = DASH \<or> c = STAR \<or> c = BULLET"

definition re_bullet :: matcher where
  "re_bullet prev s =
     (case s of
        [] \<Rightarrow> None
      | c # cs \<Rightarrow>
          if line_start prev \<and> is_bullet c
          then Some ([BULLET, SP], Suc (run is_space cs)) else None)"

text \<open>
  The group \<open>#{1,6}\s\<close>: the quantifier takes up to six hashes and gives them back one
  by one, but \<open>\s\<close> never matches a hash, so the group matches exactly when the run of
  hashes has length 1 to 6 and a white space code unit follows it. The result is the
  length of the run.
\<close>

definition heading_marker :: "jsstring \<Rightarrow> nat option" where
  "heading_marker s =
     (let k = run (\<lambda>c. c = HASH) s in
      if 1 \<le> k \<and> k \<le> 6 \<and> (case drop k s of [] \<Rightarrow> False | w # _ \<Rightarrow> is_space w)
      then Some k else None)"

text \<open>\<open>/([^\n])\n(#{1,6}\s)/g\<close>, replaced by \<open>'$1\n\n$2'\<close>.\<close>

definition re_before_heading :: matcher where
  "re_before_heading prev s =
     (case s of
        a # b # rest \<Rightarrow>
          if a \<noteq> LF \<and> b = LF then
            (case heading_marker rest of
               None \<Rightarrow> None
             | Some k \<Rightarrow> Some (a # LF # LF # take (Suc k) rest, k + 3))
          else None
      | _ \<Rightarrow> None)"

text \<open>
  \<open>/^(#{1,6}\s[^\n]+)(?!\n\n)/gm\<close>, replaced by \<open>'$1\n\n'\<close>. After the marker,
  \<open>[^\n]+\<close> first takes the whole run of \<open>n\<close> code units other than LF. There the
  lookahead fails when two line feeds follow; the quantifier then gives one code unit
  back (when it holds two or more), and at that position the next code unit is not a
  line feed, so the lookahead succeeds.
\<close>

definition re_heading :: matcher where
  "re_heading prev s =
     (if line_start prev then
        (case heading_marker s of
           None \<Rightarrow> None
         | Some k \<Rightarrow>
            (let rest = drop (Suc k) s;
                 n = run (\<lambda>c. c \<noteq> LF) rest;
                 n' = (if take 2 (drop n rest) = [LF, LF] then n - 1 else n)
             in if 1 \<le> n' then Some (take (Suc k + n') s @ [LF, LF], Suc k + n') else None))
      else None)"

text \<open>\<open>/([^\n])\n([^#\s\<bullet>-])/g\<close>, replaced by \<open>'$1\n\n$2'\<close>; the dash at the end of
  the class is a literal dash.\<close>

definition re_paragraph :: matcher where
  "re_paragraph prev s =
     (case s of
        a # b # c # rest \<Rightarrow>
          if a \<noteq> LF \<and> b = LF \<and> \<not> (c = HASH \<or> is_space c \<or> c = BULLET \<or> c = DASH)
          then Some ([a, LF, LF, c], 3) else None
      | _ \<Rightarrow> None)"

text \<open>\<open>/\s{2,}/g\<close>, replaced by one space.\<close>

definition re_spaces :: matcher where
  "re_spaces prev s =
     (let k = run is_space s in if 2 \<le> k then Some ([SP], k) else None)"

definition formatSummaryText :: "jsstring \<Rightarrow> jsstring" where
  "formatSummaryText text0 =
     (if text0 = [] then []
      else
        let text1 = replace_all re_newlines None text0;
            text2 = replace_all re_bullet None text1;
            text3 = replace_all re_before_heading None text2;
            text4 = replace_all re_heading None text3;
            text5 = replace_all re_paragraph None text4;
            text6 = replace_all re_spaces None text5
        in trim text6)"

section \<open>Notion pages and blocks\<close>

text \<open>Of a rich text run only \<open>plain_text\<close> is read. \<open>join_text\<close> is
  \<open>rich_text.map(t => t.plain_text).join('')\<close>. An absent \<open>rich_text\<close> array behaves in
  every guard of the source as the empty one, which stands for it here.\<close>

record text_run =
  plain_text :: jsstring

definition join_text :: "text_run list \<Rightarrow> jsstring" where
  "join_text rich_text = concat (map plain_text rich_text)"

text \<open>The block's \<open>type\<close> together with the object stored under that key.
  \<open>Unsupported t\<close> is a block whose type \<open>t\<close> is none of those the converter knows.\<close>

datatype payload =
    Paragraph "text_run list"
  | Heading_1 "text_run list"
  | Heading_2 "text_run list"
  | Heading_3 "text_run list"
  | Bulleted_list_item "text_run list"
  | Numbered_list_item "text_run list"
  | To_do "text_run list" bool
  | Toggle "text_run list"
  | Child_page "jsstring option"
  | Quote "text_run list"
  | Code "text_run list" "jsstring option"
  | Divider
  | Callout "text_run list" "jsstring option"
  | Table
  | Column_list
  | Unsupported jsstring

text \<open>
  The converter asks the Notion API for the children of every block that reports
  \<open>has_children\<close>. What that request answers is recorded in the block: the request (or
  the decoding of its answer) throws, the answer has a status other than 2xx, or it
  carries the child blocks. One finite tree so describes everything an import reads.
\<close>

datatype block =
  Block (block_id: jsstring) (payload: payload) (has_children: bool) (children: children_response)
and children_response =
    ChildrenThrow
  | ChildrenNotOk
  | ChildrenOk "block list"

record property =
  prop_type :: jsstring
  prop_title :: "text_run list option"

text \<open>\<open>properties\<close> in the order in which \<open>for (const propKey in properties)\<close> visits
  the keys; \<open>map_of\<close> is the lookup by key.\<close>

record page =
  properties :: "(jsstring \<times> property) list"
  url :: jsstring

section \<open>Title resolution\<close>

text \<open>\<open>p && p.title && Array.isArray(p.title) && p.title.length > 0\<close>\<close>

definition has_title_runs :: "property option \<Rightarrow> bool" where
  "has_title_runs p =
     (case p of None \<Rightarrow> False
      | Some q \<Rightarrow> (case prop_title q of None \<Rightarrow> False | Some runs \<Rightarrow> runs \<noteq> []))"

definition title_runs :: "property \<Rightarrow> jsstring" where
  "title_runs q = (case prop_title q of None \<Rightarrow> [] | Some runs \<Rightarrow> join_text runs)"

text \<open>The loop over all properties: the first one of type \<open>title\<close> with a non-empty
  array ends the loop.\<close>

fun any_title_property :: "(jsstring \<times> property) list \<Rightarrow> jsstring" where
  "any_title_property [] = []"
| "any_title_property ((propKey, prop) # rest) =
     (if prop_type prop = js ''title'' \<and> has_title_runs (Some prop)
      then title_runs prop else any_title_property rest)"

definition property_title :: "(jsstring \<times> property) list \<Rightarrow> jsstring" where
  "property_title props =
     (if has_title_runs (map_of props (js ''title''))
      then (case map_of props (js ''title'') of None \<Rightarrow> [] | Some q \<Rightarrow> title_runs q)
      else if has_title_runs (map_of props (js ''Name''))
      then (case map_of props (js ''Name'') of None \<Rightarrow> [] | Some q \<Rightarrow> title_runs q)
      else any_title_property props)"

text \<open>\<open>rich_text?.[0]?.plain_text\<close> is truthy\<close>

definition first_run_has_text :: "text_run list \<Rightarrow> bool" where
  "first_run_has_text rich_text =
     (case rich_text of [] \<Rightarrow> False | t # _ \<Rightarrow> plain_text t \<noteq> [])"

definition truncate40 :: "jsstring \<Rightarrow> jsstring" where
  "truncate40 t = (if 40 < length t then take 40 t @ js ''...'' else t)"

text \<open>The loop over the top-level blocks: the first \<open>heading_1\<close> or \<open>paragraph\<close> whose
  first run has text ends the loop.\<close>

fun block_title :: "block list \<Rightarrow> jsstring" where
  "block_title [] = []"
| "block_title (b # rest) =
     (case payload b of
        Heading_1 rich_text \<Rightarrow>
          if first_run_has_text rich_text then join_text rich_text else block_title rest
      | Paragraph rich_text \<Rightarrow>
          if first_run_has_text rich_text then truncate40 (join_text rich_text)
          else block_title rest
      | _ \<Rightarrow> block_title rest)"

text \<open>\<open>date\<close> is \<open>new Date().toLocaleDateString()\<close>.\<close>

definition resolve_title :: "jsstring \<Rightarrow> page \<Rightarrow> block list \<Rightarrow> jsstring" where
  "resolve_title date pageData blocks =
     (let pageTitle = property_title (properties pageData) in
      if pageTitle \<noteq> [] then pageTitle
      else let pageTitle = block_title blocks in
        if pageTitle \<noteq> [] then pageTitle
        else js ''Notion Page ('' @ date @ js '')'')"

section \<open>The converter\<close>

definition indent :: "nat \<Rightarrow> jsstring" where
  "indent level = concat (replicate level (js ''  ''))"

definition or_else :: "jsstring option \<Rightarrow> jsstring \<Rightarrow> jsstring" where
  "or_else v d = (case v of None \<Rightarrow> d | Some s \<Rightarrow> if s = [] then d else s)"

definition processBlock :: "block \<Rightarrow> nat \<Rightarrow> jsstring" where
  "processBlock b level =
     (case payload b of
        Paragraph rt \<Rightarrow>
          if rt \<noteq> [] then indent level @ join_text rt @ [LF, LF] else indent level @ [LF, LF]
      | Heading_1 rt \<Rightarrow>
          if rt \<noteq> [] then indent level @ js ''# '' @ join_text rt @ [LF, LF] else []
      | Heading_2 rt \<Rightarrow>
          if rt \<noteq> [] then indent level @ js ''## '' @ join_text rt @ [LF, LF] else []
      | Heading_3 rt \<Rightarrow>
          if rt \<noteq> [] then indent level @ js ''### '' @ join_text rt @ [LF, LF] else []
      | Bulleted_list_item rt \<Rightarrow>
          if rt \<noteq> [] then indent level @ js ''- '' @ join_text rt @ [LF] else []
      | Numbered_list_item rt \<Rightarrow>
          if rt \<noteq> [] then indent level @ js ''1. '' @ join_text rt @ [LF] else []
      | To_do rt checked \<Rightarrow>
          if rt \<noteq> [] then
            indent level @ js ''- '' @ (if checked then js ''[x]'' else js ''[ ]'') @ js '' ''
              @ join_text rt @ [LF]
          else []
      | Toggle rt \<Rightarrow>
          if rt \<noteq> [] then indent level @ js ''**Toggle: '' @ join_text rt @ js ''**'' @ [LF, LF]
          else []
      | Child_page title \<Rightarrow>
          indent level @ js ''**Child Page: '' @ or_else title (js ''Untitled'') @ js ''**''
            @ [LF, LF]
      | Quote rt \<Rightarrow>
          if rt \<noteq> [] then indent level @ js ''> '' @ join_text rt @ [LF, LF] else []
      | Code rt language \<Rightarrow>
          if rt \<noteq> [] then
            indent level @ js ''```'' @ or_else language [] @ [LF] @ join_text rt @ [LF]
              @ js ''```'' @ [LF, LF]
          else []
      | Divider \<Rightarrow> indent level @ js ''---'' @ [LF, LF]
      | Callout rt emoji \<Rightarrow>
          if rt \<noteq> [] then
            indent level @ js ''> ''
              @ (case emoji of None \<Rightarrow> [] | Some e \<Rightarrow> if e = [] then [] else e @ js '' '')
              @ js ''**Callout:** '' @ join_text rt @ [LF, LF]
          else []
      | Table \<Rightarrow> indent level @ js ''[Table content not fully supported]'' @ [LF, LF]
      | Column_list \<Rightarrow> indent level @ js ''[Column layout not fully supported]'' @ [LF, LF]
      | Unsupported t \<Rightarrow>
          indent level @ js ''['' @ t @ js '' block type not supported]'' @ [LF, LF])"

definition error_placeholder :: jsstring where
  "error_placeholder = [LF, LF] @ js ''*[Error loading nested content]*'' @ [LF, LF]"

text \<open>
  \<open>processBlocks\<close>: the fragment of each block, then, when the block has children, what
  the \<open>try\<close> statement adds (\<open>nested_content\<close>): the converted children when the answer
  is ok, nothing when it is not, the placeholder of the \<open>catch\<close> clause when the request
  throws.
\<close>

fun processBlocks :: "block list \<Rightarrow> nat \<Rightarrow> jsstring"
  and nested_content :: "children_response \<Rightarrow> nat \<Rightarrow> jsstring" where
  "processBlocks [] level = []"
| "processBlocks (Block i p h resp # blocks) level =
     processBlock (Block i p h resp) level
       @ (if h then nested_content resp level else [])
       @ processBlocks blocks level"
| "nested_content ChildrenThrow level = error_placeholder"
| "nested_content ChildrenNotOk level = []"
| "nested_content (ChildrenOk results) level = processBlocks results (level + 1)"

section \<open>The import handler\<close>

text \<open>What a Supabase query resolves to: \<open>{ data, error }\<close>.\<close>

record 'a query_result =
  data :: "'a option"
  error :: "jsstring option"

text \<open>What a top-level \<open>fetch\<close> of the Notion API comes to: it throws an error with a
  message, it answers with a status other than 2xx and an error body with an optional
  \<open>message\<close>, or it answers with the data.\<close>

datatype 'a http_result =
    FetchThrows jsstring
  | HttpNotOk "jsstring option"
  | HttpOk 'a

record source_document =
  sd_type :: jsstring
  sd_url :: jsstring
  sd_name :: jsstring
  sd_id :: jsstring

record project_note =
  title :: jsstring
  content :: jsstring
  project_id :: jsstring
  user_id :: jsstring
  tags :: "jsstring list"
  source_document :: source_document

record stored_note = project_note +
  note_id :: jsstring

text \<open>Everything outside the handler: the database behind the Supabase client, the
  Notion API for the page and its top-level blocks, and the clock.\<close>

record world =
  is_project_member :: "jsstring \<Rightarrow> jsstring \<Rightarrow> bool query_result"
  projects_owner_id :: "jsstring \<Rightarrow> jsstring query_result"
  notion_connections_access_token :: "jsstring \<Rightarrow> jsstring query_result"
  notion_page :: "jsstring \<Rightarrow> jsstring \<Rightarrow> page http_result"
  notion_block_children :: "jsstring \<Rightarrow> jsstring \<Rightarrow> block list http_result"
  project_notes_insert :: "project_note \<Rightarrow> stored_note query_result"
  toLocaleDateString :: jsstring

text \<open>The calls the handler makes to the outside, in the order in which it makes them.\<close>

datatype call =
    RpcIsProjectMember jsstring jsstring
  | SelectProjectOwner jsstring
  | SelectNotionConnection jsstring
  | GetPage jsstring
  | GetBlockChildren jsstring
  | InsertNote project_note

definition is_notion_call :: "call \<Rightarrow> bool" where
  "is_notion_call c = (case c of GetPage _ \<Rightarrow> True | GetBlockChildren _ \<Rightarrow> True | _ \<Rightarrow> False)"

definition is_insert :: "call \<Rightarrow> bool" where
  "is_insert c = (case c of InsertNote _ \<Rightarrow> True | _ \<Rightarrow> False)"

text \<open>The requests for nested children that \<open>processBlocks\<close> sends.\<close>

fun nested_fetches :: "block list \<Rightarrow> call list"
  and nested_fetches_in :: "children_response \<Rightarrow> call list" where
  "nested_fetches [] = []"
| "nested_fetches (Block i p h resp # blocks) =
     (if h then GetBlockChildren i # nested_fetches_in resp else []) @ nested_fetches blocks"
| "nested_fetches_in ChildrenThrow = []"
| "nested_fetches_in ChildrenNotOk = []"
| "nested_fetches_in (ChildrenOk results) = nested_fetches results"

record params =
  userId :: "jsstring option"
  pageId :: "jsstring option"
  projectId :: "jsstring option"

text \<open>\<open>json\<close> is what \<open>await req.json()\<close> comes to: the message of the error it throws,
  or the request object.\<close>

record request =
  req_method :: jsstring
  json :: "jsstring + params"

datatype envelope =
    SuccessEnvelope "stored_note option" jsstring
  | FailureEnvelope jsstring

record response =
  status :: nat
  envelope :: "envelope option"

text \<open>The \<open>catch\<close> clause of the handler: \<open>error.message || "Unknown error occurred"\<close>
  with status 400.\<close>

definition failure :: "jsstring \<Rightarrow> response" where
  "failure message =
     \<lparr>status = 400,
      envelope = Some (FailureEnvelope (or_else (Some message) (js ''Unknown error occurred'')))\<rparr>"

definition notion_api_error :: "jsstring option \<Rightarrow> jsstring" where
  "notion_api_error message = js ''Notion API error: '' @ or_else message (js ''Unknown error'')"

text \<open>From the title extraction to the response, for a page and its top-level blocks
  that have been fetched.\<close>

definition new_note :: "world \<Rightarrow> jsstring \<Rightarrow> jsstring \<Rightarrow> jsstring \<Rightarrow> page \<Rightarrow> block list \<Rightarrow> project_note" where
  "new_note w uid pid prj pageData results =
     (let pageTitle = resolve_title (toLocaleDateString w) pageData results;
          content = processBlocks results 0
      in \<lparr>title = pageTitle, content = trim content, project_id = prj, user_id = uid,
           tags = [js ''notion'', js ''imported'', js ''notion-import''],
           source_document =
             \<lparr>sd_type = js ''notion'', sd_url = url pageData, sd_name = pageTitle, sd_id = pid\<rparr>\<rparr>)"

definition convert_and_insert ::
  "world \<Rightarrow> jsstring \<Rightarrow> jsstring \<Rightarrow> jsstring \<Rightarrow> page \<Rightarrow> block list \<Rightarrow> response \<times> call list" where
  "convert_and_insert w uid pid prj pageData results =
     (let n = new_note w uid pid prj pageData results;
          inserted = project_notes_insert w n;
          calls = nested_fetches results @ [InsertNote n]
      in case error inserted of
           Some message \<Rightarrow> (failure (js ''Failed to create note: '' @ message), calls)
         | None \<Rightarrow>
             (\<lparr>status = 200,
               envelope = Some (SuccessEnvelope (data inserted)
                 (js ''Successfully imported '' @ [DQUOTE] @ title n @ [DQUOTE] @ js '' from Notion''))\<rparr>,
              calls))"

text \<open>The two requests to the Notion API for the page and for its top-level blocks.\<close>

definition fetch_page ::
  "world \<Rightarrow> jsstring \<Rightarrow> jsstring \<Rightarrow> jsstring \<Rightarrow> jsstring \<Rightarrow> response \<times> call list" where
  "fetch_page w uid pid prj accessToken =
     (case notion_page w accessToken pid of
        FetchThrows message \<Rightarrow> (failure message, [GetPage pid])
      | HttpNotOk message \<Rightarrow> (failure (notion_api_error message), [GetPage pid])
      | HttpOk pageData \<Rightarrow>
          (case notion_block_children w accessToken pid of
             FetchThrows message \<Rightarrow> (failure message, [GetPage pid, GetBlockChildren pid])
           | HttpNotOk message \<Rightarrow>
               (failure (notion_api_error message), [GetPage pid, GetBlockChildren pid])
           | HttpOk results \<Rightarrow>
               (let (resp, calls) = convert_and_insert w uid pid prj pageData results
                in (resp, [GetPage pid, GetBlockChildren pid] @ calls))))"

text \<open>The body of the \<open>try\<close> statement for a request object: validation, the access
  check, the Notion connection of the user, then the import.\<close>

definition truthy :: "jsstring option \<Rightarrow> bool" where
  "truthy v = (case v of None \<Rightarrow> False | Some s \<Rightarrow> s \<noteq> [])"

definition checked_import ::
  "world \<Rightarrow> jsstring \<Rightarrow> jsstring \<Rightarrow> jsstring \<Rightarrow> response \<times> call list" where
  "checked_import w uid pid prj =
     (let projectAccess = is_project_member w prj uid;
          projectOwner = projects_owner_id w prj;
          calls = [RpcIsProjectMember prj uid, SelectProjectOwner prj]
      in if (error projectAccess \<noteq> None \<and> error projectOwner \<noteq> None)
            \<or> (data projectAccess \<noteq> Some True \<and> data projectOwner \<noteq> Some uid)
         then (failure (js ''You don't have access to this project''), calls)
         else
           let connection = notion_connections_access_token w uid;
               calls = calls @ [SelectNotionConnection uid]
           in case (error connection, data connection) of
                (None, Some accessToken) \<Rightarrow>
                  (let (resp, more) = fetch_page w uid pid prj accessToken
                   in (resp, calls @ more))
              | _ \<Rightarrow> (failure (js ''Notion connection not found''), calls))"

definition import_page :: "world \<Rightarrow> params \<Rightarrow> response \<times> call list" where
  "import_page w p =
     (if \<not> truthy (userId p) \<or> \<not> truthy (pageId p) \<or> \<not> truthy (projectId p)
      then (failure (js ''Missing required parameters: userId, pageId, and projectId''), [])
      else
        case (userId p, pageId p, projectId p) of
          (Some uid, Some pid, Some prj) \<Rightarrow> checked_import w uid pid prj
        | _ \<Rightarrow> (failure (js ''Missing required parameters: userId, pageId, and projectId''), []))"

definition handler :: "world \<Rightarrow> request \<Rightarrow> response \<times> call list" where
  "handler w req =
     (if req_method req = js ''OPTIONS'' then (\<lparr>status = 200, envelope = None\<rparr>, [])
      else case json req of
             Inl message \<Rightarrow> (failure message, [])
           | Inr p \<Rightarrow> import_page w p)"

section \<open>Notions used to state the properties\<close>

text \<open>A block that ends the loop of the title fallback, and the title it gives.\<close>

definition title_candidate :: "block \<Rightarrow> bool" where
  "title_candidate b =
     (case payload b of
        Heading_1 rich_text \<Rightarrow> first_run_has_text rich_text
      | Paragraph rich_text \<Rightarrow> first_run_has_text rich_text
      | _ \<Rightarrow> False)"

definition candidate_title :: "block \<Rightarrow> jsstring" where
  "candidate_title b =
     (case payload b of
        Heading_1 rich_text \<Rightarrow> join_text rich_text
      | Paragraph rich_text \<Rightarrow> truncate40 (join_text rich_text)
      | _ \<Rightarrow> [])"

definition text_of :: "string \<Rightarrow> text_run list" where
  "text_of s = [\<lparr>plain_text = js s\<rparr>]"

text \<open>What a title tier yields from the property it looks at (nothing when the property
  is absent), and the properties that the third tier accepts: type \<open>title\<close> and a
  non-empty array of runs.\<close>

definition property_text :: "property option \<Rightarrow> jsstring" where
  "property_text p = (case p of None \<Rightarrow> [] | Some q \<Rightarrow> title_runs q)"

definition title_typed :: "jsstring \<times> property \<Rightarrow> bool" where
  "title_typed kp = (prop_type (snd kp) = js ''title'' \<and> has_title_runs (Some (snd kp)))"

definition both_titles_page :: page where
  "both_titles_page =
     \<lparr>properties =
        [(js ''Status'', \<lparr>prop_type = js ''select'', prop_title = None\<rparr>),
         (js ''Name'', \<lparr>prop_type = js ''title'', prop_title = Some (text_of ''From Name'')\<rparr>),
         (js ''title'', \<lparr>prop_type = js ''title'', prop_title = Some (text_of ''From title'')\<rparr>)],
      url = js ''https://www.notion.so/both''\<rparr>"

definition other_title_page :: page where
  "other_title_page =
     \<lparr>properties =
        [(js ''Status'', \<lparr>prop_type = js ''select'', prop_title = None\<rparr>),
         (js ''Task'', \<lparr>prop_type = js ''title'', prop_title = Some (text_of ''From Task'')\<rparr>)],
      url = js ''https://www.notion.so/other''\<rparr>"

definition heading_first_blocks :: "block list" where
  "heading_first_blocks =
     [Block (js ''b0'') Divider False ChildrenNotOk,
      Block (js ''b1'') (Heading_1 (text_of ''Goals'')) False ChildrenNotOk,
      Block (js ''b2'') (Paragraph (text_of ''Intro'')) False ChildrenNotOk]"

text \<open>Some request for nested children that the converter sends throws.\<close>

fun throws_in :: "block list \<Rightarrow> bool"
  and throws_in_response :: "children_response \<Rightarrow> bool" where
  "throws_in [] = False"
| "throws_in (Block i p h resp # blocks) = ((h \<and> throws_in_response resp) \<or> throws_in blocks)"
| "throws_in_response ChildrenThrow = True"
| "throws_in_response ChildrenNotOk = False"
| "throws_in_response (ChildrenOk results) = throws_in results"

text \<open>The notes handed to the insert of \<open>project_notes\<close>.\<close>

fun inserted_notes :: "call list \<Rightarrow> project_note list" where
  "inserted_notes [] = []"
| "inserted_notes (InsertNote n # calls) = n # inserted_notes calls"
| "inserted_notes (c # calls) = inserted_notes calls"

text \<open>
  The request is no preflight and carries the three parameters, the access check lets
  the user pass, the user has a Notion connection with an access token, and the Notion
  API answers both top-level requests: the handler gets as far as converting
  \<open>results\<close>, the top-level blocks of the page \<open>pageData\<close>.
\<close>

definition has_access :: "world \<Rightarrow> jsstring \<Rightarrow> jsstring \<Rightarrow> bool" where
  "has_access w prj uid \<longleftrightarrow>
     \<not> ((error (is_project_member w prj uid) \<noteq> None \<and> error (projects_owner_id w prj) \<noteq> None)
        \<or> (data (is_project_member w prj uid) \<noteq> Some True
            \<and> data (projects_owner_id w prj) \<noteq> Some uid))"

definition reaches_conversion ::
  "world \<Rightarrow> request \<Rightarrow> jsstring \<Rightarrow> jsstring \<Rightarrow> jsstring \<Rightarrow> jsstring \<Rightarrow> page \<Rightarrow> block list
     \<Rightarrow> bool" where
  "reaches_conversion w req uid pid prj accessToken pageData results \<longleftrightarrow>
     req_method req \<noteq> js ''OPTIONS''
     \<and> json req = Inr \<lparr>userId = Some uid, pageId = Some pid, projectId = Some prj\<rparr>
     \<and> uid \<noteq> [] \<and> pid \<noteq> [] \<and> prj \<noteq> []
     \<and> has_access w prj uid
     \<and> notion_connections_access_token w uid = \<lparr>data = Some accessToken, error = None\<rparr>
     \<and> notion_page w accessToken pid = HttpOk pageData
     \<and> notion_block_children w accessToken pid = HttpOk results"

text \<open>A world in which every collaborator answers well, for a given page, and a
  request of the member \<open>user-1\<close>.\<close>

definition example_world :: "page \<Rightarrow> block list \<Rightarrow> world" where
  "example_world pageData results =
     \<lparr>is_project_member = (\<lambda>prj uid. \<lparr>data = Some True, error = None\<rparr>),
      projects_owner_id = (\<lambda>prj. \<lparr>data = Some (js ''owner-1''), error = None\<rparr>),
      notion_connections_access_token = (\<lambda>uid. \<lparr>data = Some (js ''secret''), error = None\<rparr>),
      notion_page = (\<lambda>accessToken pid. HttpOk pageData),
      notion_block_children = (\<lambda>accessToken pid. HttpOk results),
      project_notes_insert =
        (\<lambda>n. \<lparr>data = Some (project_note.extend n (stored_note.fields (js ''note-1''))),
              error = None\<rparr>),
      toLocaleDateString = js ''11/2/2026''\<rparr>"

definition example_request :: request where
  "example_request =
     \<lparr>req_method = js ''POST'',
      json = Inr \<lparr>userId = Some (js ''user-1''), pageId = Some (js ''page-1''),
                  projectId = Some (js ''project-1'')\<rparr>\<rparr>"

definition q3_page :: page where
  "q3_page =
     \<lparr>properties = [(js ''Name'', \<lparr>prop_type = js ''title'', prop_title = Some (text_of ''Q3 Plan'')\<rparr>)],
      url = js ''https://www.notion.so/q3''\<rparr>"

definition q3_blocks :: "block list" where
  "q3_blocks =
     [Block (js ''b1'') (Heading_1 (text_of ''Goals'')) False ChildrenNotOk,
      Block (js ''b2'') (Bulleted_list_item (text_of ''Grow 10%'')) False ChildrenNotOk,
      Block (js ''b3'') (Bulleted_list_item (text_of ''Ship v2'')) False ChildrenNotOk]"

definition untitled_page :: page where
  "untitled_page = \<lparr>properties = [], url = js ''https://www.notion.so/p''\<rparr>"

definition not_ok_blocks :: "block list" where
  "not_ok_blocks = [Block (js ''b1'') (Paragraph (text_of ''Intro'')) True ChildrenNotOk]"

definition throwing_blocks :: "block list" where
  "throwing_blocks =
     [Block (js ''b1'') (Toggle (text_of ''More'')) True
        (ChildrenOk [Block (js ''b2'') (Paragraph (text_of ''Inner'')) True ChildrenThrow]),
      Block (js ''b3'') (Paragraph (text_of ''After'')) False ChildrenNotOk]"

text \<open>
  For the formatting pass: a text without two adjacent white space code units; what may
  follow a bullet that the bullet rule has written (nothing, or one space and then no
  white space); and a text in which every bullet marker at the start of a line is such a
  bullet.
\<close>

fun no_double_space :: "jsstring \<Rightarrow> bool" where
  "no_double_space [] = True"
| "no_double_space [c] = True"
| "no_double_space (a # b # rest) = (\<not> (is_space a \<and> is_space b) \<and> no_double_space (b # rest))"

fun spaced :: "jsstring \<Rightarrow> bool" where
  "spaced [] = True"
| "spaced [d] = (d = SP)"
| "spaced (d # e # rest) = (d = SP \<and> \<not> is_space e)"

fun bullets_done :: "jschar option \<Rightarrow> jsstring \<Rightarrow> bool" where
  "bullets_done prev [] = True"
| "bullets_done prev (c # cs) =
     ((line_start prev \<and> is_bullet c \<longrightarrow> c = BULLET \<and> spaced cs) \<and> bullets_done (Some c) cs)"


section \<open>Auxiliary facts\<close>

lemmas fmt_defs = js_def LF_def SP_def HASH_def STAR_def DASH_def BULLET_def
  isLineTerminator_def isWhiteSpace_def is_space_def trim_def line_start_def run_def
  re_newlines_def is_bullet_def re_bullet_def heading_marker_def re_before_heading_def
  re_heading_def re_paragraph_def re_spaces_def formatSummaryText_def Let_def

subsection \<open>Substrings\<close>

lemma starts_with_append: "starts_with (n @ b) n"
  by (induction n) simp_all

lemma str_includes_here: "str_includes (n @ b) n"
proof (cases "n @ b")
  case Nil
  then show ?thesis by simp
next
  case (Cons c cs)
  have "starts_with (c # cs) n" using starts_with_append [of n b] Cons by simp
  then show ?thesis using Cons by simp
qed

lemma str_includes_append: "str_includes (a @ n @ b) n"
proof (induction a)
  case Nil
  show ?case using str_includes_here by simp
next
  case (Cons c a)
  then show ?case by simp
qed

lemma starts_with_iff: "starts_with s n \<longleftrightarrow> (\<exists>b. s = n @ b)"
proof (induction s n rule: starts_with.induct)
  case (1 s) show ?case by simp
next
  case (2 n ns) show ?case by simp
next
  case (3 c cs n ns) then show ?case by auto
qed

lemma str_includes_iff: "str_includes s n \<longleftrightarrow> (\<exists>a b. s = a @ n @ b)"
proof (induction s)
  case Nil
  show ?case by auto
next
  case (Cons c cs)
  show ?case
  proof
    assume "str_includes (c # cs) n"
    then consider "starts_with (c # cs) n" | "str_includes cs n" by auto
    then show "\<exists>a b. c # cs = a @ n @ b"
    proof cases
      case 1
      then obtain b where "c # cs = n @ b" using starts_with_iff by blast
      then have "c # cs = [] @ n @ b" by simp
      then show ?thesis by blast
    next
      case 2
      then obtain a b where "cs = a @ n @ b" using Cons.IH by blast
      then have "c # cs = (c # a) @ n @ b" by simp
      then show ?thesis by blast
    qed
  next
    assume "\<exists>a b. c # cs = a @ n @ b"
    then obtain a b where "c # cs = a @ n @ b" by blast
    then show "str_includes (c # cs) n" using str_includes_append by metis
  qed
qed

lemma str_includes_mono: "str_includes s n \<Longrightarrow> str_includes (a @ s @ b) n"
proof -
  assume "str_includes s n"
  then obtain x y where "s = x @ n @ y" using str_includes_iff by blast
  then have "a @ s @ b = (a @ x) @ n @ (y @ b)" by simp
  then show ?thesis using str_includes_append by metis
qed

lemma dropWhile_keeps:
  assumes "n \<noteq> []" and "\<not> P (hd n)"
  shows "\<exists>a'. dropWhile P (a @ n @ b) = a' @ n @ b"
proof (cases "\<forall>x \<in> set a. P x")
  case True
  from assms obtain c cs where n: "n = c # cs" and "\<not> P c" by (cases n) auto
  then have "dropWhile P (a @ n @ b) = [] @ n @ b" using True by (simp add: dropWhile_append)
  then show ?thesis by blast
next
  case False
  then have "dropWhile P (a @ n @ b) = dropWhile P a @ n @ b" by (auto simp: dropWhile_append)
  then show ?thesis by blast
qed

lemma trim_keeps:
  assumes "str_includes s n" and "n \<noteq> []" and "\<not> is_space (hd n)" and "\<not> is_space (last n)"
  shows "str_includes (trim s) n"
proof -
  obtain a b where "s = a @ n @ b" using assms(1) str_includes_iff by blast
  then obtain a' where 1: "dropWhile is_space s = a' @ n @ b"
    using dropWhile_keeps [of n is_space a b] assms(2,3) by auto
  have "rev n \<noteq> []" and "\<not> is_space (hd (rev n))" using assms(2,4) by (simp_all add: hd_rev)
  then obtain b' where "dropWhile is_space (rev b @ rev n @ rev a') = b' @ rev n @ rev a'"
    using dropWhile_keeps [of "rev n" is_space "rev b" "rev a'"] by auto
  then have "trim s = a' @ n @ rev b'" using 1 by (simp add: trim_def)
  then show ?thesis using str_includes_append by metis
qed

subsection \<open>The converter\<close>

lemma processBlocks_append:
  "processBlocks (xs @ ys) level = processBlocks xs level @ processBlocks ys level"
proof (induction xs)
  case Nil
  show ?case by simp
next
  case (Cons x xs)
  then show ?case by (cases x) simp
qed

lemma error_placeholder_includes:
  "str_includes error_placeholder (js ''*[Error loading nested content]*'')"
  using str_includes_append [of "[LF, LF]" "js ''*[Error loading nested content]*''" "[LF, LF]"]
  by (simp add: error_placeholder_def)

lemma throws_in_placeholder:
  "throws_in blocks \<Longrightarrow>
     str_includes (processBlocks blocks level) (js ''*[Error loading nested content]*'')"
  "throws_in_response resp \<Longrightarrow>
     str_includes (nested_content resp level) (js ''*[Error loading nested content]*'')"
proof (induction blocks level and resp level rule: processBlocks_nested_content.induct)
  case (1 level)
  then show ?case by simp
next
  case (2 i p h resp blocks level)
  let ?X = "js ''*[Error loading nested content]*''"
  from "2.prems" consider "h" "throws_in_response resp" | "throws_in blocks" by auto
  then show ?case
  proof cases
    case 1
    then have "str_includes (nested_content resp level) ?X" using "2.IH"(1) by simp
    then have "str_includes (processBlock (Block i p h resp) level @ nested_content resp level
        @ processBlocks blocks level) ?X" by (rule str_includes_mono)
    then show ?thesis using 1 by simp
  next
    case 2
    then have "str_includes (processBlocks blocks level) ?X" using "2.IH"(2) by simp
    then have "str_includes ((processBlock (Block i p h resp) level
        @ (if h then nested_content resp level else [])) @ processBlocks blocks level @ []) ?X"
      by (rule str_includes_mono)
    then show ?thesis by simp
  qed
next
  case (3 level)
  show ?case using error_placeholder_includes by simp
next
  case (4 level)
  then show ?case by simp
next
  case (5 results level)
  then show ?case by simp
qed

subsection \<open>The title fallback\<close>

lemma block_title_find:
  "block_title blocks
     = (case find title_candidate blocks of None \<Rightarrow> [] | Some b \<Rightarrow> candidate_title b)"
  by (induction blocks)
     (auto simp: title_candidate_def candidate_title_def split: payload.splits)

lemma join_text_nonempty: "first_run_has_text rt \<Longrightarrow> join_text rt \<noteq> []"
  by (cases rt) (auto simp: first_run_has_text_def join_text_def)

lemma truncate40_nonempty: "t \<noteq> [] \<Longrightarrow> truncate40 t \<noteq> []"
  by (auto simp: truncate40_def js_def)

lemma candidate_title_nonempty: "title_candidate b \<Longrightarrow> candidate_title b \<noteq> []"
  by (auto simp: title_candidate_def candidate_title_def join_text_nonempty truncate40_nonempty
      split: payload.splits)

lemma any_title_property_find:
  "any_title_property props = property_text (map_option snd (find title_typed props))"
  by (induction props) (auto simp: title_typed_def property_text_def)

subsection \<open>The handler up to the conversion\<close>

lemma handler_converts:
  assumes "reaches_conversion w req uid pid prj accessToken pageData results"
  shows "handler w req =
           (fst (convert_and_insert w uid pid prj pageData results),
            [RpcIsProjectMember prj uid, SelectProjectOwner prj, SelectNotionConnection uid,
             GetPage pid, GetBlockChildren pid]
              @ snd (convert_and_insert w uid pid prj pageData results))"
  using assms
  by (auto simp: reaches_conversion_def has_access_def handler_def import_page_def truthy_def
      checked_import_def fetch_page_def split_def Let_def)

lemma inserted_notes_append: "inserted_notes (a @ b) = inserted_notes a @ inserted_notes b"
  by (induction a rule: inserted_notes.induct) simp_all

lemma inserted_notes_nested [simp]:
  "inserted_notes (nested_fetches blocks) = []"
  "inserted_notes (nested_fetches_in resp) = []"
  by (induction blocks and resp rule: nested_fetches_nested_fetches_in.induct)
     (simp_all add: inserted_notes_append)

lemma inserted_notes_convert:
  "inserted_notes (snd (convert_and_insert w uid pid prj pageData results))
     = [new_note w uid pid prj pageData results]"
  by (simp add: convert_and_insert_def Let_def inserted_notes_append split: option.splits)

lemma reaches_conversion_example:
  "reaches_conversion (example_world pageData results) example_request
     (js ''user-1'') (js ''page-1'') (js ''project-1'') (js ''secret'') pageData results"
  by (simp add: reaches_conversion_def has_access_def example_world_def example_request_def js_def)

lemma q3_document:
  "trim (processBlocks q3_blocks 0) = js ''# Goals\<newline>\<newline>- Grow 10%\<newline>- Ship v2''"
  by (simp add: q3_blocks_def text_of_def processBlock_def indent_def join_text_def trim_def
      is_space_def isWhiteSpace_def isLineTerminator_def LF_def js_def)

lemma q3_title: "resolve_title date q3_page q3_blocks = js ''Q3 Plan''"
  by (simp add: resolve_title_def q3_page_def property_title_def has_title_runs_def
      title_runs_def join_text_def text_of_def js_def)

section \<open>The persisted note (C1)\<close>

text \<open>
  C1, as the code has it. The import handler does not call the formatting pass: the note it
  inserts carries the resolved title and the assembled document with only its leading and
  trailing white space trimmed. For the page whose property \<open>Name\<close> has the title
  \<open>Q3 Plan\<close> and whose blocks are a first-level heading \<open>Goals\<close> and the two bulleted
  items \<open>Grow 10%\<close> and \<open>Ship v2\<close>, the title is \<open>Q3 Plan\<close> and the content is
  \<open># Goals\n\n- Grow 10%\n- Ship v2\<close>, with the dashes of the converter.
\<close>

theorem persisted_note_is_trimmed_document:
  assumes "reaches_conversion w req uid pid prj accessToken pageData results"
  shows "inserted_notes (snd (handler w req)) = [new_note w uid pid prj pageData results]
         \<and> title (new_note w uid pid prj pageData results)
             = resolve_title (toLocaleDateString w) pageData results
         \<and> content (new_note w uid pid prj pageData results) = trim (processBlocks results 0)
         \<and> resolve_title (toLocaleDateString w) q3_page q3_blocks = js ''Q3 Plan''
         \<and> trim (processBlocks q3_blocks 0)
             = js ''# Goals\<newline>\<newline>- Grow 10%\<newline>- Ship v2''"
proof -
  have "inserted_notes (snd (handler w req)) = [new_note w uid pid prj pageData results]"
    using handler_converts [OF assms] by (simp add: inserted_notes_append inserted_notes_convert)
  then show ?thesis by (simp add: new_note_def Let_def q3_document q3_title)
qed

text \<open>The theorem at the page of C1, in a world where every collaborator answers.\<close>

theorem persisted_note_is_trimmed_document_witness:
  "reaches_conversion (example_world q3_page q3_blocks) example_request
     (js ''user-1'') (js ''page-1'') (js ''project-1'') (js ''secret'') q3_page q3_blocks
   \<and> map title (inserted_notes (snd (handler (example_world q3_page q3_blocks) example_request)))
       = [js ''Q3 Plan'']
   \<and> map content (inserted_notes (snd (handler (example_world q3_page q3_blocks) example_request)))
       = [js ''# Goals\<newline>\<newline>- Grow 10%\<newline>- Ship v2'']"
  using persisted_note_is_trimmed_document [OF reaches_conversion_example [of q3_page q3_blocks]]
    reaches_conversion_example [of q3_page q3_blocks]
  by (simp add: example_world_def)

text \<open>
  C1 as stated fails at that page: the content handed to the insert has dashes, not
  bullets, and it is not what the formatting pass makes of the assembled document (the
  pass would give \<open># Goal s \<bullet> Grow 10%\n\<bullet> Ship v2\<close>).
\<close>

theorem no_post_processing_counterexample:
  "map content (inserted_notes (snd (handler (example_world q3_page q3_blocks) example_request)))
     = [js ''# Goals\<newline>\<newline>- Grow 10%\<newline>- Ship v2'']
   \<and> js ''# Goals\<newline>\<newline>- Grow 10%\<newline>- Ship v2''
       \<noteq> js ''# Goals\<newline>\<newline>'' @ [BULLET] @ js '' Grow 10%\<newline>'' @ [BULLET] @ js '' Ship v2''
   \<and> js ''# Goals\<newline>\<newline>- Grow 10%\<newline>- Ship v2''
       \<noteq> formatSummaryText (processBlocks q3_blocks 0)"
proof -
  have "inserted_notes (snd (handler (example_world q3_page q3_blocks) example_request))
      = [new_note (example_world q3_page q3_blocks) (js ''user-1'') (js ''page-1'')
           (js ''project-1'') q3_page q3_blocks]"
    using handler_converts [OF reaches_conversion_example [of q3_page q3_blocks]]
    by (simp add: inserted_notes_append inserted_notes_convert)
  then have 1: "map content
      (inserted_notes (snd (handler (example_world q3_page q3_blocks) example_request)))
      = [js ''# Goals\<newline>\<newline>- Grow 10%\<newline>- Ship v2'']"
    by (simp add: new_note_def Let_def q3_document)
  have 2: "js ''# Goals\<newline>\<newline>- Grow 10%\<newline>- Ship v2''
       \<noteq> js ''# Goals\<newline>\<newline>'' @ [BULLET] @ js '' Grow 10%\<newline>'' @ [BULLET] @ js '' Ship v2''"
    by (simp add: js_def BULLET_def)
  have "formatSummaryText (processBlocks q3_blocks 0)
      = js ''# Goal s '' @ [BULLET] @ js '' Grow 10%\<newline>'' @ [BULLET] @ js '' Ship v2''"
    by (simp add: q3_blocks_def text_of_def processBlock_def indent_def join_text_def fmt_defs)
  then have 3: "js ''# Goals\<newline>\<newline>- Grow 10%\<newline>- Ship v2''
       \<noteq> formatSummaryText (processBlocks q3_blocks 0)"
    by (simp add: js_def BULLET_def)
  show ?thesis using 1 2 3 by simp
qed

section \<open>Title resolution (C2, C7)\<close>

text \<open>
  C2, as the code has it. The order of the tiers is kept: the property \<open>title\<close> when it
  has a non-empty array of runs, otherwise the property \<open>Name\<close> when it has one,
  otherwise the first property of type \<open>title\<close> that has one; the blocks are asked only
  when the text so found is empty, and the generated title is used only when the blocks
  give none either. Only the fourth and the fifth tier are not ordered among themselves:
  the blocks give the title of the first top-level block, in document order, that is a
  \<open>heading_1\<close> or a \<open>paragraph\<close> whose first run has text, that is the text of the
  heading, or the text of the paragraph cut to 40 code units plus \<open>...\<close> when it is
  longer. A heading is taken before a paragraph only when it comes first.
\<close>

theorem title_resolution_order:
  "resolve_title date pageData blocks =
     (let props = properties pageData;
          fromProperties =
            (if has_title_runs (map_of props (js ''title''))
             then property_text (map_of props (js ''title''))
             else if has_title_runs (map_of props (js ''Name''))
             then property_text (map_of props (js ''Name''))
             else property_text (map_option snd (find title_typed props)))
      in if fromProperties \<noteq> [] then fromProperties
         else (case find title_candidate blocks of
                 None \<Rightarrow> js ''Notion Page ('' @ date @ js '')''
               | Some b \<Rightarrow> candidate_title b))"
proof -
  define fromProperties where "fromProperties =
      (if has_title_runs (map_of (properties pageData) (js ''title''))
       then property_text (map_of (properties pageData) (js ''title''))
       else if has_title_runs (map_of (properties pageData) (js ''Name''))
       then property_text (map_of (properties pageData) (js ''Name''))
       else property_text (map_option snd (find title_typed (properties pageData))))"
  have p: "property_title (properties pageData) = fromProperties"
    by (simp add: fromProperties_def property_title_def property_text_def
        any_title_property_find)
  have b: "(if block_title blocks \<noteq> [] then block_title blocks
            else js ''Notion Page ('' @ date @ js '')'')
      = (case find title_candidate blocks of
           None \<Rightarrow> js ''Notion Page ('' @ date @ js '')''
         | Some b \<Rightarrow> candidate_title b)"
  proof (cases "find title_candidate blocks")
    case None
    then show ?thesis by (simp add: block_title_find)
  next
    case (Some b)
    then have "title_candidate b" by (auto simp: find_Some_iff)
    then have "candidate_title b \<noteq> []" by (rule candidate_title_nonempty)
    then show ?thesis using Some by (simp add: block_title_find)
  qed
  have "resolve_title date pageData blocks =
      (if fromProperties \<noteq> [] then fromProperties
       else (case find title_candidate blocks of
               None \<Rightarrow> js ''Notion Page ('' @ date @ js '')''
             | Some b \<Rightarrow> candidate_title b))"
    using b by (simp add: resolve_title_def Let_def p)
  then show ?thesis unfolding fromProperties_def Let_def .
qed

text \<open>The theorem at a page with both \<open>title\<close> and \<open>Name\<close>, at a page with \<open>Name\<close>
  only, at a page whose title property has another name, and at pages without a title
  property, with and without blocks.\<close>

theorem title_resolution_order_witness:
  "resolve_title (js ''11/2/2026'') both_titles_page heading_first_blocks = js ''From title''
   \<and> resolve_title (js ''11/2/2026'') q3_page heading_first_blocks = js ''Q3 Plan''
   \<and> resolve_title (js ''11/2/2026'') other_title_page heading_first_blocks = js ''From Task''
   \<and> resolve_title (js ''11/2/2026'') untitled_page heading_first_blocks = js ''Goals''
   \<and> resolve_title (js ''11/2/2026'') untitled_page [] = js ''Notion Page (11/2/2026)''"
  using title_resolution_order [of "js ''11/2/2026''" both_titles_page heading_first_blocks]
    title_resolution_order [of "js ''11/2/2026''" q3_page heading_first_blocks]
    title_resolution_order [of "js ''11/2/2026''" other_title_page heading_first_blocks]
    title_resolution_order [of "js ''11/2/2026''" untitled_page heading_first_blocks]
    title_resolution_order [of "js ''11/2/2026''" untitled_page "[]"]
  by (simp add: both_titles_page_def q3_page_def other_title_page_def untitled_page_def
      heading_first_blocks_def has_title_runs_def title_runs_def
      property_text_def title_typed_def title_candidate_def candidate_title_def
      first_run_has_text_def truncate40_def join_text_def text_of_def js_def Let_def)

text \<open>
  C2 as stated fails when a paragraph with text precedes the first heading: the title is
  the paragraph's \<open>Intro\<close>, not the heading's \<open>Goals\<close>.
\<close>

theorem heading_not_preferred_counterexample:
  "resolve_title (js ''11/2/2026'') untitled_page
     [Block (js ''b1'') (Paragraph (text_of ''Intro'')) False ChildrenNotOk,
      Block (js ''b2'') (Heading_1 (text_of ''Goals'')) False ChildrenNotOk]
   = js ''Intro''"
  by (simp add: resolve_title_def untitled_page_def property_title_def has_title_runs_def
      first_run_has_text_def truncate40_def join_text_def text_of_def js_def)

text \<open>
  C7. The resolved title is never the empty string, and when neither the page properties
  nor the blocks yield text it is \<open>Notion Page (<date>)\<close> for the date of the day.
\<close>

theorem title_never_empty:
  "resolve_title date pageData blocks \<noteq> []
   \<and> (property_title (properties pageData) = [] \<and> block_title blocks = []
        \<longrightarrow> resolve_title date pageData blocks = js ''Notion Page ('' @ date @ js '')'')"
  by (simp add: resolve_title_def Let_def js_def)

theorem title_never_empty_witness:
  "property_title (properties \<lparr>properties = [], url = js ''https://notion.so/p''\<rparr>) = []
   \<and> block_title [Block (js ''b1'') Divider False ChildrenNotOk] = []
   \<and> resolve_title (js ''11/2/2026'') \<lparr>properties = [], url = js ''https://notion.so/p''\<rparr>
         [Block (js ''b1'') Divider False ChildrenNotOk] = js ''Notion Page (11/2/2026)''"
  using title_never_empty [of "js ''11/2/2026''" "\<lparr>properties = [], url = js ''https://notion.so/p''\<rparr>"
      "[Block (js ''b1'') Divider False ChildrenNotOk]"]
  by (simp add: property_title_def has_title_runs_def js_def)

section \<open>Nested children that cannot be fetched (C3)\<close>

text \<open>
  C3, as the code has it. Take an import that gets as far as the conversion and whose
  insert reports no error. When a request for nested children throws, the content of the
  inserted note contains \<open>*[Error loading nested content]*\<close>, and the response is the
  success envelope with status 200. In the document the placeholder stands right behind
  the fragment of the block whose children were asked for. When the request is answered
  with a status other than 2xx, nothing is added for the children: no placeholder.
\<close>

theorem nested_throw_degrades:
  assumes "reaches_conversion w req uid pid prj accessToken pageData results"
    and "error (project_notes_insert w (new_note w uid pid prj pageData results)) = None"
  shows "(throws_in results \<longrightarrow>
            str_includes (content (new_note w uid pid prj pageData results))
              (js ''*[Error loading nested content]*''))
         \<and> inserted_notes (snd (handler w req)) = [new_note w uid pid prj pageData results]
         \<and> fst (handler w req)
             = \<lparr>status = 200,
                envelope = Some (SuccessEnvelope
                  (data (project_notes_insert w (new_note w uid pid prj pageData results)))
                  (js ''Successfully imported '' @ [DQUOTE]
                     @ title (new_note w uid pid prj pageData results)
                     @ [DQUOTE] @ js '' from Notion''))\<rparr>
         \<and> processBlocks (before @ Block i p True ChildrenThrow # after) level
             = processBlocks before level @ processBlock (Block i p True ChildrenThrow) level
                 @ error_placeholder @ processBlocks after level
         \<and> processBlocks (before @ Block i p True ChildrenNotOk # after) level
             = processBlocks before level @ processBlock (Block i p True ChildrenNotOk) level
                 @ processBlocks after level"
proof -
  let ?X = "js ''*[Error loading nested content]*''"
  have X: "?X \<noteq> []" "\<not> is_space (hd ?X)" "\<not> is_space (last ?X)"
    by (simp_all add: js_def is_space_def isWhiteSpace_def isLineTerminator_def)
  have 1: "throws_in results \<Longrightarrow> str_includes (content (new_note w uid pid prj pageData results)) ?X"
    using trim_keeps [OF throws_in_placeholder(1) X] by (simp add: new_note_def Let_def)
  have 2: "inserted_notes (snd (handler w req)) = [new_note w uid pid prj pageData results]"
    using handler_converts [OF assms(1)] by (simp add: inserted_notes_append inserted_notes_convert)
  have 3: "fst (handler w req)
             = \<lparr>status = 200,
                envelope = Some (SuccessEnvelope
                  (data (project_notes_insert w (new_note w uid pid prj pageData results)))
                  (js ''Successfully imported '' @ [DQUOTE]
                     @ title (new_note w uid pid prj pageData results)
                     @ [DQUOTE] @ js '' from Notion''))\<rparr>"
    using handler_converts [OF assms(1)] assms(2) by (simp add: convert_and_insert_def Let_def)
  show ?thesis using 1 2 3 by (simp add: processBlocks_append)
qed

theorem nested_throw_degrades_witness:
  "reaches_conversion (example_world untitled_page throwing_blocks) example_request
     (js ''user-1'') (js ''page-1'') (js ''project-1'') (js ''secret'') untitled_page throwing_blocks
   \<and> throws_in throwing_blocks
   \<and> status (fst (handler (example_world untitled_page throwing_blocks) example_request)) = 200
   \<and> map content
        (inserted_notes (snd (handler (example_world untitled_page throwing_blocks) example_request)))
       = [js ''**Toggle: More**\<newline>\<newline>  Inner\<newline>\<newline>\<newline>\<newline>*[Error loading nested content]*\<newline>\<newline>After'']"
proof -
  let ?w = "example_world untitled_page throwing_blocks"
  have r: "reaches_conversion ?w example_request
     (js ''user-1'') (js ''page-1'') (js ''project-1'') (js ''secret'') untitled_page throwing_blocks"
    by (rule reaches_conversion_example)
  have e: "error (project_notes_insert ?w (new_note ?w (js ''user-1'') (js ''page-1'')
      (js ''project-1'') untitled_page throwing_blocks)) = None"
    by (simp add: example_world_def)
  have t: "throws_in throwing_blocks" by (simp add: throwing_blocks_def)
  have c: "trim (processBlocks throwing_blocks 0)
      = js ''**Toggle: More**\<newline>\<newline>  Inner\<newline>\<newline>\<newline>\<newline>*[Error loading nested content]*\<newline>\<newline>After''"
    by (simp add: throwing_blocks_def text_of_def processBlock_def indent_def join_text_def trim_def
      error_placeholder_def is_space_def isWhiteSpace_def isLineTerminator_def LF_def js_def)
  show ?thesis
    using nested_throw_degrades [OF r e] r t c by (simp add: new_note_def Let_def)
qed

text \<open>
  C3 as stated fails when the request for the children of a block is answered with a
  status other than 2xx: the request was sent, the import succeeds, and the persisted
  content is \<open>Intro\<close>, without the placeholder.
\<close>

theorem nested_not_ok_counterexample:
  "status (fst (handler (example_world untitled_page not_ok_blocks) example_request)) = 200
   \<and> snd (handler (example_world untitled_page not_ok_blocks) example_request) ! 5
       = GetBlockChildren (js ''b1'')
   \<and> map content
        (inserted_notes (snd (handler (example_world untitled_page not_ok_blocks) example_request)))
       = [js ''Intro'']
   \<and> \<not> str_includes (js ''Intro'') (js ''*[Error loading nested content]*'')"
proof -
  let ?w = "example_world untitled_page not_ok_blocks"
  have h: "handler ?w example_request =
      (fst (convert_and_insert ?w (js ''user-1'') (js ''page-1'') (js ''project-1'')
              untitled_page not_ok_blocks),
       [RpcIsProjectMember (js ''project-1'') (js ''user-1''), SelectProjectOwner (js ''project-1''),
        SelectNotionConnection (js ''user-1''), GetPage (js ''page-1''),
        GetBlockChildren (js ''page-1'')]
         @ snd (convert_and_insert ?w (js ''user-1'') (js ''page-1'') (js ''project-1'')
              untitled_page not_ok_blocks))"
    by (rule handler_converts [OF reaches_conversion_example])
  have c: "trim (processBlocks not_ok_blocks 0) = js ''Intro''"
    by (simp add: not_ok_blocks_def text_of_def processBlock_def indent_def join_text_def trim_def
      is_space_def isWhiteSpace_def isLineTerminator_def LF_def js_def)
  have 1: "status (fst (handler ?w example_request)) = 200"
    unfolding h by (simp add: convert_and_insert_def Let_def example_world_def)
  have 2: "snd (handler ?w example_request) ! 5 = GetBlockChildren (js ''b1'')"
    unfolding h by (simp add: convert_and_insert_def Let_def not_ok_blocks_def split: option.splits)
  have 3: "map content (inserted_notes (snd (handler ?w example_request))) = [js ''Intro'']"
    unfolding h by (simp add: inserted_notes_append inserted_notes_convert new_note_def Let_def c)
  have 4: "\<not> str_includes (js ''Intro'') (js ''*[Error loading nested content]*'')"
    by (simp add: js_def)
  show ?thesis using 1 2 3 4 by simp
qed

section \<open>The formatting pass (C4, C5)\<close>

text \<open>
  C4 as stated fails: the pass maps \<open>a\nb\nc\<close> to \<open>a b\nc\<close>, and that to \<open>a b c\<close>.
  The paragraph rule matches \<open>a\nb\<close> and goes on behind \<open>b\<close>, so that \<open>b\nc\<close> is
  only found by the next application.
\<close>

theorem not_idempotent_counterexample:
  "formatSummaryText (js ''a\<newline>b\<newline>c'') = js ''a b\<newline>c''
   \<and> formatSummaryText (formatSummaryText (js ''a\<newline>b\<newline>c'')) = js ''a b c''"
proof -
  have 1: "formatSummaryText (js ''a\<newline>b\<newline>c'') = js ''a b\<newline>c''"
    by (simp add: fmt_defs)
  have 2: "formatSummaryText (js ''a b\<newline>c'') = js ''a b c''"
    by (simp add: fmt_defs)
  show ?thesis using 1 2 by simp
qed

text \<open>
  C5 at the input \<open>a\n\n\n\nb\<close>: the first rule leaves two line feeds, and the last
  rule, \<open>\s{2,}\<close>, whose comment is "Remove extra spaces", replaces them by one space.
  The result is \<open>a b\<close>.
\<close>

theorem newline_run_lost_at_failing_input:
  "formatSummaryText (js ''a\<newline>\<newline>\<newline>\<newline>b'') = js ''a b''"
  by (simp add: fmt_defs)

section \<open>Request validation and the access check (C6, C9)\<close>

text \<open>
  C6. A request object in which \<open>userId\<close>, \<open>pageId\<close> or \<open>projectId\<close> is missing is
  answered with status 400 and the failure envelope with the error
  \<open>Missing required parameters: userId, pageId, and projectId\<close>, and the handler has
  made no call to the outside: no Notion request and no insert. (A request with the
  method \<open>OPTIONS\<close> is a preflight and its body is not read.)
\<close>

theorem missing_parameter_rejected:
  assumes "req_method req \<noteq> js ''OPTIONS''" and "json req = Inr p"
    and "userId p = None \<or> pageId p = None \<or> projectId p = None"
  shows "handler w req =
           (\<lparr>status = 400,
             envelope = Some (FailureEnvelope
               (js ''Missing required parameters: userId, pageId, and projectId''))\<rparr>, [])"
  using assms by (auto simp: handler_def import_page_def truthy_def failure_def or_else_def js_def)

theorem missing_parameter_rejected_witness:
  "handler (example_world q3_page q3_blocks)
     \<lparr>req_method = js ''POST'',
      json = Inr \<lparr>userId = None, pageId = Some (js ''page-1''),
                  projectId = Some (js ''project-1'')\<rparr>\<rparr>
     = (\<lparr>status = 400,
         envelope = Some (FailureEnvelope
           (js ''Missing required parameters: userId, pageId, and projectId''))\<rparr>, [])"
  using missing_parameter_rejected [of "\<lparr>req_method = js ''POST'',
      json = Inr \<lparr>userId = None, pageId = Some (js ''page-1''),
                  projectId = Some (js ''project-1'')\<rparr>\<rparr>"
      "\<lparr>userId = None, pageId = Some (js ''page-1''), projectId = Some (js ''project-1'')\<rparr>"
      "example_world q3_page q3_blocks"]
  by (simp add: js_def)

text \<open>
  C9. For a request with the three parameters whose user the membership check does not
  report as a member of the project and who is not the owner of the project, the handler
  answers with status 400 and the error \<open>You don't have access to this project\<close>; the
  only calls it has made are the membership check and the owner query: no Notion request
  and no insert.
\<close>

theorem no_access_rejected:
  assumes "req_method req \<noteq> js ''OPTIONS''" and "json req = Inr p"
    and "userId p = Some uid" and "uid \<noteq> []"
    and "pageId p = Some pid" and "pid \<noteq> []"
    and "projectId p = Some prj" and "prj \<noteq> []"
    and "data (is_project_member w prj uid) \<noteq> Some True"
    and "data (projects_owner_id w prj) \<noteq> Some uid"
  shows "fst (handler w req) =
           \<lparr>status = 400,
            envelope = Some (FailureEnvelope (js ''You don't have access to this project''))\<rparr>
         \<and> snd (handler w req) = [RpcIsProjectMember prj uid, SelectProjectOwner prj]
         \<and> (\<forall>c \<in> set (snd (handler w req)). \<not> is_notion_call c \<and> \<not> is_insert c)"
  using assms
  by (simp add: handler_def import_page_def truthy_def checked_import_def failure_def or_else_def
      js_def is_notion_call_def is_insert_def)

theorem no_access_rejected_witness:
  "fst (handler
         ((example_world q3_page q3_blocks)
            \<lparr>is_project_member := (\<lambda>prj uid. \<lparr>data = Some False, error = None\<rparr>)\<rparr>)
         example_request)
     = \<lparr>status = 400,
        envelope = Some (FailureEnvelope (js ''You don't have access to this project''))\<rparr>
   \<and> snd (handler
         ((example_world q3_page q3_blocks)
            \<lparr>is_project_member := (\<lambda>prj uid. \<lparr>data = Some False, error = None\<rparr>)\<rparr>)
         example_request)
     = [RpcIsProjectMember (js ''project-1'') (js ''user-1''), SelectProjectOwner (js ''project-1'')]"
  using no_access_rejected [of example_request
      "\<lparr>userId = Some (js ''user-1''), pageId = Some (js ''page-1''),
        projectId = Some (js ''project-1'')\<rparr>"
      "js ''user-1''" "js ''page-1''" "js ''project-1''"
      "(example_world q3_page q3_blocks)
            \<lparr>is_project_member := (\<lambda>prj uid. \<lparr>data = Some False, error = None\<rparr>)\<rparr>"]
  by (simp add: example_request_def example_world_def js_def)

section \<open>Single blocks (C8, C10)\<close>

text \<open>
  C8, as the code has it. For a \<open>to_do\<close> block with at least one rich text run the
  fragment is the indent, \<open>- [x]\<close> when the block is checked and \<open>- [ ]\<close> when it is
  not, a space, the text and a line feed; so it contains \<open>[x]\<close>, respectively \<open>[ ]\<close>.
  A \<open>to_do\<close> block without rich text gives the empty fragment.
\<close>

theorem to_do_checkbox:
  assumes "payload b = To_do rt checked"
  shows "(rt \<noteq> [] \<longrightarrow>
            processBlock b level
              = indent level @ js ''- '' @ (if checked then js ''[x]'' else js ''[ ]'') @ js '' ''
                  @ join_text rt @ [LF]
            \<and> str_includes (processBlock b level) (if checked then js ''[x]'' else js ''[ ]''))
         \<and> (rt = [] \<longrightarrow> processBlock b level = [])"
proof -
  let ?box = "if checked then js ''[x]'' else js ''[ ]''"
  have eq: "rt \<noteq> [] \<Longrightarrow> processBlock b level
      = (indent level @ js ''- '') @ ?box @ (js '' '' @ join_text rt @ [LF])"
    using assms by (simp add: processBlock_def)
  have "rt \<noteq> [] \<Longrightarrow> str_includes (processBlock b level) ?box"
    using eq str_includes_append [of "indent level @ js ''- ''" ?box] by simp
  moreover have "rt = [] \<Longrightarrow> processBlock b level = []"
    using assms by (simp add: processBlock_def)
  ultimately show ?thesis using eq by simp
qed

theorem to_do_checkbox_witness:
  "processBlock (Block (js ''b1'') (To_do [\<lparr>plain_text = js ''Buy milk''\<rparr>] True) False ChildrenNotOk) 0
     = js ''- [x] Buy milk'' @ [LF]
   \<and> str_includes
        (processBlock (Block (js ''b1'') (To_do [\<lparr>plain_text = js ''Buy milk''\<rparr>] True) False ChildrenNotOk) 0)
        (js ''[x]'')"
  using to_do_checkbox [of "Block (js ''b1'') (To_do [\<lparr>plain_text = js ''Buy milk''\<rparr>] True) False ChildrenNotOk"
      "[\<lparr>plain_text = js ''Buy milk''\<rparr>]" True 0]
  by (simp add: indent_def join_text_def js_def)

text \<open>C8 as stated fails for a checked \<open>to_do\<close> block without rich text: its fragment is
  empty and does not contain \<open>[x]\<close>.\<close>

theorem to_do_empty_counterexample:
  "\<not> str_includes (processBlock (Block (js ''b1'') (To_do [] True) False ChildrenNotOk) 0) (js ''[x]'')"
  by (simp add: processBlock_def js_def)

text \<open>
  C10. A \<open>child_page\<close> block whose title is absent or empty still gives a fragment: the
  indent, \<open>**Child Page: Untitled**\<close> and a blank line. It is not the empty fragment.
\<close>

theorem child_page_untitled:
  assumes "payload b = Child_page t" and "t = None \<or> t = Some []"
  shows "processBlock b level = indent level @ js ''**Child Page: Untitled**'' @ [LF, LF]
         \<and> processBlock b level \<noteq> []"
  using assms by (auto simp: processBlock_def or_else_def js_def)

theorem child_page_untitled_witness:
  "processBlock (Block (js ''b1'') (Child_page None) False ChildrenNotOk) 1
     = js ''  **Child Page: Untitled**'' @ [LF, LF]"
  using child_page_untitled [of "Block (js ''b1'') (Child_page None) False ChildrenNotOk" None 1]
  by (simp add: indent_def js_def)

end
